theory Spec2Isabelle
  imports Main "HOL-Library.Word"
begin

section \<open>Data model\<close>

text \<open>
  The value of an \<^verbatim>\<open>interface{}\<close> slot of an event's content, as the JSON decoder
  produces it. The code only ever asks whether such a value is a string, and which one.
\<close>

datatype json =
    JNull
  | JBool bool
  | JNumber int
  | JString string
  | JArray "json list"
  | JObject "(string \<times> json) list"

type_synonym EventType = string

text \<open>
  Modelled from the spec: the constant \<^verbatim>\<open>MemberEventType\<close> is declared outside the
  sources at hand; it is the type tag of membership events, \<^verbatim>\<open>m.room.member\<close>.
\<close>

definition MemberEventType :: EventType where
  "MemberEventType = ''m.room.member''"

text \<open>
  Modelled from the spec: the declaration of \<^verbatim>\<open>Event\<close> is outside the sources at hand.
  The fields are the ones the code reads and writes (\<^verbatim>\<open>Type\<close>, \<^verbatim>\<open>StateKey\<close>, a pointer that
  may be nil, \<^verbatim>\<open>Content\<close>, \<^verbatim>\<open>RoomID\<close>) and the protocol metadata the spec lists.
\<close>

record Event =
  StateKey :: "string option"
  Sender :: string
  Type :: EventType
  Timestamp :: int
  ID :: string
  RoomID :: string
  Content :: "string \<rightharpoonup> json"

text \<open>
  Modelled from the spec: the declaration of \<^verbatim>\<open>RespSync\<close> is outside the sources at
  hand. Its shape is fixed by the field paths of \<^verbatim>\<open>sync.go\<close>:
  \<^verbatim>\<open>res.AccountData.Events\<close>, \<^verbatim>\<open>res.Presence.Events\<close>, and the three maps from room
  identifier to room data under \<^verbatim>\<open>res.Rooms\<close>.
\<close>

record JoinedRoom =
  JoinState :: "Event list"
  JoinTimeline :: "Event list"
  JoinEphemeral :: "Event list"

record InvitedRoom =
  InviteState :: "Event list"

record LeftRoom =
  LeaveState :: "Event list"
  LeaveTimeline :: "Event list"

record RespSync =
  NextBatch :: string
  AccountData_Events :: "Event list"
  Presence_Events :: "Event list"
  Rooms_Join :: "string \<rightharpoonup> JoinedRoom"
  Rooms_Invite :: "string \<rightharpoonup> InvitedRoom"
  Rooms_Leave :: "string \<rightharpoonup> LeftRoom"

section \<open>Outcomes, errors and channels\<close>

datatype wait = LockWait | SelectWait

text \<open>
  How a call ends: it returns, it panics (a panic that leaves the function), the runtime
  aborts the process with a fatal error, or it waits for something that no step of the
  sequential run provides.
\<close>

datatype 'a outcome = Returns 'a | Panics | Fatal | Blocks wait

datatype ctx_err = Canceled | DeadlineExceeded

datatype error =
    ProcessResponsePanicked string string
  | CallListenerPanicked
  | ContextErr ctx_err
  | TransportError string

text \<open>
  The events channel, seen from the sender: whether it has been closed, and the events
  handed over so far, oldest first. A send on a closed channel panics. The channel carries
  pointers; the model records the event a pointer designates at the moment of the send.
\<close>

record chan =
  closed :: bool
  sent :: "Event list"

datatype sending = Sent chan | SendPanics chan

definition send :: "chan \<Rightarrow> Event \<Rightarrow> sending" where
  "send ch e = (if closed ch then SendPanics ch else Sent (ch\<lparr>sent := sent ch @ [e]\<rparr>))"

definition andThen :: "sending \<Rightarrow> (chan \<Rightarrow> sending) \<Rightarrow> sending" where
  "andThen r f = (case r of Sent ch \<Rightarrow> f ch | SendPanics ch \<Rightarrow> SendPanics ch)"

section \<open>The default syncer\<close>

record DefaultSyncer =
  UserID :: string
  eventsChan :: chan

definition NewDefaultSyncer :: "string \<Rightarrow> chan \<Rightarrow> DefaultSyncer" where
  "NewDefaultSyncer userID ch = \<lparr>UserID = userID, eventsChan = ch\<rparr>"

text \<open>
  A \<^verbatim>\<open>range\<close> over a map visits the entries in an order the runtime chooses, and skips an
  entry deleted before it is reached. The order of each of the four \<^verbatim>\<open>range\<close> statements
  is an input of the model; \<open>ranges m ks\<close> says that \<open>ks\<close> is an order the runtime may
  choose for the map \<open>m\<close>.
\<close>

record orders =
  scanOrder :: "string list"
  joinOrder :: "string list"
  inviteOrder :: "string list"
  leaveOrder :: "string list"

definition ranges :: "('k \<rightharpoonup> 'v) \<Rightarrow> 'k list \<Rightarrow> bool" where
  "ranges m ks \<longleftrightarrow> distinct ks \<and> set ks = dom m"

subsection \<open>shouldProcessResponse\<close>

text \<open>
  The inner loop \<^verbatim>\<open>for i := len(events) - 1; i >= 0; i--\<close>: the third argument is
  \<open>i + 1\<close>. A \<^verbatim>\<open>continue\<close> and the fall-through of the two \<^verbatim>\<open>if\<close>s go on with \<open>i - 1\<close>;
  the \<^verbatim>\<open>break\<close> after the two deletions ends the loop.
\<close>

fun timelineLoop :: "DefaultSyncer \<Rightarrow> string \<Rightarrow> Event list \<Rightarrow> nat \<Rightarrow> RespSync \<Rightarrow> RespSync" where
  "timelineLoop s roomID events 0 resp = resp"
| "timelineLoop s roomID events (Suc i) resp =
     (let e = events ! i in
      if Type e = MemberEventType \<and> StateKey e = Some (UserID s) then
        (case Content e ''membership'' of
           Some (JString mship) \<Rightarrow>
             if mship = ''join'' then
               (case Rooms_Join resp roomID of
                  None \<Rightarrow> timelineLoop s roomID events i resp
                | Some _ \<Rightarrow>
                    resp\<lparr>Rooms_Join := (Rooms_Join resp)(roomID := None),
                         Rooms_Invite := (Rooms_Invite resp)(roomID := None)\<rparr>)
             else timelineLoop s roomID events i resp
         | _ \<Rightarrow> timelineLoop s roomID events i resp)
      else timelineLoop s roomID events i resp)"

definition scanRoom :: "DefaultSyncer \<Rightarrow> RespSync \<Rightarrow> string \<Rightarrow> RespSync" where
  "scanRoom s resp roomID =
     (case Rooms_Join resp roomID of
        None \<Rightarrow> resp
      | Some roomData \<Rightarrow>
          timelineLoop s roomID (JoinTimeline roomData) (length (JoinTimeline roomData)) resp)"

text \<open>
  A nil response is \<open>None\<close>. With an empty \<^verbatim>\<open>since\<close> the function returns before it
  touches the response; otherwise \<^verbatim>\<open>resp.Rooms.Join\<close> dereferences it.
\<close>

definition shouldProcessResponse ::
  "DefaultSyncer \<Rightarrow> string list \<Rightarrow> RespSync option \<Rightarrow> string \<Rightarrow> (bool \<times> RespSync option) outcome" where
  "shouldProcessResponse s ks resp since =
     (if since = '''' then Returns (False, resp)
      else case resp of
             None \<Rightarrow> Panics
           | Some r \<Rightarrow> Returns (True, Some (foldl (scanRoom s) r ks)))"

subsection \<open>ProcessResponse\<close>

fun sendEvents :: "chan \<Rightarrow> Event list \<Rightarrow> sending" where
  "sendEvents ch [] = Sent ch"
| "sendEvents ch (e # es) = andThen (send ch e) (\<lambda>ch'. sendEvents ch' es)"

fun sendRoomEvents :: "string \<Rightarrow> chan \<Rightarrow> Event list \<Rightarrow> sending" where
  "sendRoomEvents roomID ch [] = Sent ch"
| "sendRoomEvents roomID ch (event # es) =
     andThen (send ch (event\<lparr>RoomID := roomID\<rparr>)) (\<lambda>ch'. sendRoomEvents roomID ch' es)"

fun rangeJoin :: "(string \<rightharpoonup> JoinedRoom) \<Rightarrow> chan \<Rightarrow> string list \<Rightarrow> sending" where
  "rangeJoin m ch [] = Sent ch"
| "rangeJoin m ch (roomID # ks) =
     (case m roomID of
        None \<Rightarrow> rangeJoin m ch ks
      | Some roomData \<Rightarrow>
          andThen (sendRoomEvents roomID ch (JoinState roomData)) (\<lambda>c1.
          andThen (sendRoomEvents roomID c1 (JoinTimeline roomData)) (\<lambda>c2.
          andThen (sendRoomEvents roomID c2 (JoinEphemeral roomData)) (\<lambda>c3.
          rangeJoin m c3 ks))))"

fun rangeInvite :: "(string \<rightharpoonup> InvitedRoom) \<Rightarrow> chan \<Rightarrow> string list \<Rightarrow> sending" where
  "rangeInvite m ch [] = Sent ch"
| "rangeInvite m ch (roomID # ks) =
     (case m roomID of
        None \<Rightarrow> rangeInvite m ch ks
      | Some roomData \<Rightarrow>
          andThen (sendRoomEvents roomID ch (InviteState roomData)) (\<lambda>c1.
          rangeInvite m c1 ks))"

fun rangeLeave :: "(string \<rightharpoonup> LeftRoom) \<Rightarrow> chan \<Rightarrow> string list \<Rightarrow> sending" where
  "rangeLeave m ch [] = Sent ch"
| "rangeLeave m ch (roomID # ks) =
     (case m roomID of
        None \<Rightarrow> rangeLeave m ch ks
      | Some roomData \<Rightarrow>
          andThen (sendRoomEvents roomID ch (LeaveTimeline roomData)) (\<lambda>c1.
          rangeLeave m c1 ks))"

definition emitAll :: "orders \<Rightarrow> RespSync \<Rightarrow> chan \<Rightarrow> sending" where
  "emitAll ord res ch =
     andThen (sendEvents ch (AccountData_Events res)) (\<lambda>c1.
     andThen (sendEvents c1 (Presence_Events res)) (\<lambda>c2.
     andThen (rangeJoin (Rooms_Join res) c2 (joinOrder ord)) (\<lambda>c3.
     andThen (rangeInvite (Rooms_Invite res) c3 (inviteOrder ord)) (\<lambda>c4.
     rangeLeave (Rooms_Leave res) c4 (leaveOrder ord)))))"

text \<open>
  The result is the returned error (or the way the call ends otherwise), the syncer with
  the channel as the call leaves it, and the response as the call leaves it. The deferred
  \<^verbatim>\<open>recover\<close> is installed after \<^verbatim>\<open>shouldProcessResponse\<close> has returned, so it turns a
  panic of the sends into an error, and does not catch a panic of
  \<^verbatim>\<open>shouldProcessResponse\<close>.
\<close>

definition ProcessResponse ::
  "DefaultSyncer \<Rightarrow> orders \<Rightarrow> RespSync option \<Rightarrow> string
     \<Rightarrow> error option outcome \<times> DefaultSyncer \<times> RespSync option" where
  "ProcessResponse s ord res since =
     (case shouldProcessResponse s (scanOrder ord) res since of
        Returns (ok, res') \<Rightarrow>
          if \<not> ok then (Returns None, s, res')
          else (case res' of
                  None \<Rightarrow> (Returns (Some (ProcessResponsePanicked (UserID s) since)), s, res')
                | Some r \<Rightarrow>
                    (case emitAll ord r (eventsChan s) of
                       Sent ch' \<Rightarrow> (Returns None, s\<lparr>eventsChan := ch'\<rparr>, res')
                     | SendPanics ch' \<Rightarrow>
                         (Returns (Some (ProcessResponsePanicked (UserID s) since)),
                          s\<lparr>eventsChan := ch'\<rparr>, res')))
      | Panics \<Rightarrow> (Panics, s, res)
      | Fatal \<Rightarrow> (Fatal, s, res)
      | Blocks w \<Rightarrow> (Blocks w, s, res))"

subsection \<open>OnFailedSync\<close>

text \<open>\<^verbatim>\<open>time.Duration\<close> is a signed 64-bit count of nanoseconds.\<close>

type_synonym Duration = "64 word"

definition Second :: Duration where
  "Second = 1000000000"

definition OnFailedSync :: "DefaultSyncer \<Rightarrow> RespSync option \<Rightarrow> error option \<Rightarrow> Duration \<times> error option" where
  "OnFailedSync s res err = (10 * Second, None)"

section \<open>Initial-sync suppression\<close>

text \<open>
  C1. With an empty \<^verbatim>\<open>since\<close>, \<^verbatim>\<open>ProcessResponse\<close> returns a nil error, sends nothing on
  the events channel and leaves the response as it was, whatever the response is (a nil
  response included) and whatever state the channel is in.
\<close>

theorem ProcessResponse_initial_sync:
  "ProcessResponse s ord res '''' = (Returns None, s, res)"
  by (simp add: ProcessResponse_def shouldProcessResponse_def)

section \<open>The default failure policy\<close>

text \<open>
  C8. For every response-or-nil and every error, \<^verbatim>\<open>OnFailedSync\<close> answers a delay of ten
  seconds (ten thousand million nanoseconds, which a 64-bit duration holds without
  wrapping) and no fatal error; so every run of consecutive failures is answered by
  that many ten-second delays, none of them fatal.
\<close>

theorem OnFailedSync_fixed_delay:
  "OnFailedSync s res err = (10 * Second, None)
   \<and> sint (fst (OnFailedSync s res err)) = 10 * 1000000000
   \<and> snd (OnFailedSync s res err) = None
   \<and> map (\<lambda>(r, e). OnFailedSync s r e) failures
       = replicate (length failures) (10000000000, None)"
  by (induction failures) (auto simp: OnFailedSync_def Second_def)

end
